theory Spec2Isabelle
  imports Main "HOL-Library.Word"
begin

unbundle bit_operations_syntax

section \<open>JavaScript strings\<close>

text \<open>
  A JavaScript string is a sequence of UTF-16 code units. The page reads the text
  area's content as such a string, and both \<^verbatim>\<open>String.prototype.trim\<close> and the
  regular expression \<^verbatim>\<open>/\r?\n/\<close> (no \<^verbatim>\<open>u\<close> flag) work on code units.
\<close>

type_synonym jschar = "16 word"
type_synonym jsstring = "jschar list"

definition utf16 :: "string \<Rightarrow> jsstring" where
  \<comment> \<open>An ASCII literal of the source as code units.\<close>
  "utf16 s = map of_char s"

definition LF :: jschar where "LF = 0x0A"
definition CR :: jschar where "CR = 0x0D"

definition is_white_space :: "jschar \<Rightarrow> bool" where
  \<comment> \<open>What \<^verbatim>\<open>trim\<close> strips: ECMAScript WhiteSpace (TAB, VT, FF, SP, NBSP, ZWNBSP and
      the Unicode space separators) and LineTerminator (LF, CR, LS, PS).\<close>
  "is_white_space c \<longleftrightarrow>
     c = 0x09 \<or> c = 0x0A \<or> c = 0x0B \<or> c = 0x0C \<or> c = 0x0D \<or> c = 0x20 \<or>
     c = 0xA0 \<or> c = 0x1680 \<or> (0x2000 \<le> c \<and> c \<le> 0x200A) \<or>
     c = 0x2028 \<or> c = 0x2029 \<or> c = 0x202F \<or> c = 0x205F \<or> c = 0x3000 \<or>
     c = 0xFEFF"

definition js_trim :: "jsstring \<Rightarrow> jsstring" where
  \<comment> \<open>\<^verbatim>\<open>line.trim()\<close>\<close>
  "js_trim s = rev (dropWhile is_white_space (rev (dropWhile is_white_space s)))"

fun split_newlines :: "jsstring \<Rightarrow> jsstring \<Rightarrow> jsstring list" where
  \<comment> \<open>\<^verbatim>\<open>.split(/\r?\n/)\<close>: the scan tries the pattern at each position from the left;
      a match closes the current piece (first argument, reversed) and the scan goes on
      behind the match; the piece open at the end of the text is kept, also when empty.\<close>
  "split_newlines piece [] = [rev piece]"
| "split_newlines piece [c] =
     (if c = LF then [rev piece, []] else [rev (c # piece)])"
| "split_newlines piece (c # d # cs) =
     (if c = CR \<and> d = LF then rev piece # split_newlines [] cs
      else if c = LF then rev piece # split_newlines [] (d # cs)
      else split_newlines (c # piece) (d # cs))"

definition js_split :: "jsstring \<Rightarrow> jsstring list" where
  "js_split s = split_newlines [] s"

definition parse_isrcs :: "jsstring \<Rightarrow> jsstring list" where
  \<comment> \<open>Lines 19 to 22 of \<^verbatim>\<open>handleSubmit\<close>: split, map trim, filter non-empty.\<close>
  "parse_isrcs isrcInput =
     filter (\<lambda>line. length line > 0) (map (\<lambda>line. js_trim line) (js_split isrcInput))"


section \<open>JavaScript values\<close>

text \<open>
  What \<^verbatim>\<open>response.json()\<close> resolves to is any JSON value, and the page's variables
  hold whatever is assigned to them. A number is kept as the bit pattern of its IEEE 754
  double: the code only tests numbers for truthiness and copies them.
\<close>

datatype jsval =
    JUndefined
  | JNull
  | JBool bool
  | JNum "64 word"
  | JStr jsstring
  | JArr "jsval list"
  | JObj "(jsstring \<times> jsval) list"

fun truthy :: "jsval \<Rightarrow> bool" where
  \<comment> \<open>ToBoolean: false for \<^verbatim>\<open>undefined\<close>, \<^verbatim>\<open>null\<close>, \<^verbatim>\<open>false\<close>, \<^verbatim>\<open>+0\<close>, \<^verbatim>\<open>-0\<close>, \<^verbatim>\<open>NaN\<close>
      and the empty string.\<close>
  "truthy JUndefined = False"
| "truthy JNull = False"
| "truthy (JBool b) = b"
| "truthy (JNum w) =
     (let magnitude = w AND 0x7FFFFFFFFFFFFFFF
      in magnitude \<noteq> 0 \<and> magnitude \<le> 0x7FF0000000000000)"
| "truthy (JStr s) = (s \<noteq> [])"
| "truthy (JArr _) = True"
| "truthy (JObj _) = True"

text \<open>
  A thrown Error object, as far as the \<^verbatim>\<open>catch\<close> clause reads it: its \<^verbatim>\<open>message\<close>, a
  string, which is empty for an Error made without one.
\<close>

datatype js_error = Error (message: jsstring)

fun get_prop :: "(jsstring \<Rightarrow> js_error) \<Rightarrow> jsval \<Rightarrow> jsstring \<Rightarrow> js_error + jsval" where
  \<comment> \<open>\<^verbatim>\<open>data.k\<close> for the property names the page reads (\<^verbatim>\<open>success\<close>, \<^verbatim>\<open>message\<close>, \<^verbatim>\<open>url\<close>),
      none of which a built-in prototype defines: a TypeError on \<^verbatim>\<open>null\<close> and
      \<^verbatim>\<open>undefined\<close>, the own property of an object, \<^verbatim>\<open>undefined\<close> otherwise. The
      first argument is the TypeError the engine throws for the property name.\<close>
  "get_prop raise JUndefined k = Inl (raise k)"
| "get_prop raise JNull k = Inl (raise k)"
| "get_prop raise (JObj kvs) k = Inr (case map_of kvs k of Some v \<Rightarrow> v | None \<Rightarrow> JUndefined)"
| "get_prop raise (JBool _) k = Inr JUndefined"
| "get_prop raise (JNum _) k = Inr JUndefined"
| "get_prop raise (JStr _) k = Inr JUndefined"
| "get_prop raise (JArr _) k = Inr JUndefined"

fun decimal :: "nat \<Rightarrow> jsstring" where
  \<comment> \<open>\<^verbatim>\<open>${response.status}\<close>: the decimal digits of a non-negative integer.\<close>
  "decimal n =
     (if n < 10 then [of_nat (48 + n)] else decimal (n div 10) @ [of_nat (48 + n mod 10)])"

declare decimal.simps [simp del]

section \<open>The page and its collaborators\<close>

record page =
  isrcInput :: jsstring
  isLoading :: bool
  resultUrl :: jsval
  errorMessage :: jsval
  successMessage :: jsval

definition initial_page :: page where
  \<comment> \<open>Lines 4 to 8.\<close>
  "initial_page =
     \<lparr>isrcInput = [], isLoading = False, resultUrl = JNull, errorMessage = JNull,
      successMessage = JNull\<rparr>"

record request =
  req_path :: jsstring
  req_method :: jsstring
  req_content_type :: jsstring
  req_body :: "jsstring list"
    \<comment> \<open>the array that \<^verbatim>\<open>JSON.stringify\<close> serialises; the serialisation itself is not modelled\<close>

datatype body =
    Json jsval          \<comment> \<open>\<^verbatim>\<open>response.json()\<close> resolves\<close>
  | JsonRejects js_error  \<comment> \<open>the body is not valid JSON, or reading it fails\<close>

datatype fetched =
    Rejects js_error      \<comment> \<open>\<^verbatim>\<open>fetch\<close> rejects: no response\<close>
  | Response nat body  \<comment> \<open>a response with its HTTP status\<close>

record env =
  fetch :: "request \<Rightarrow> fetched"
  type_error :: "jsstring \<Rightarrow> js_error"

definition response_ok :: "nat \<Rightarrow> bool" where
  \<comment> \<open>\<^verbatim>\<open>response.ok\<close>\<close>
  "response_ok status \<longleftrightarrow> 200 \<le> status \<and> status \<le> 299"

definition post_request :: "jsstring list \<Rightarrow> request" where
  \<comment> \<open>Lines 31 to 37.\<close>
  "post_request isrcs =
     \<lparr>req_path = utf16 ''/'', req_method = utf16 ''POST'',
      req_content_type = utf16 ''application/json'', req_body = isrcs\<rparr>"

section \<open>handleSubmit\<close>

definition respond :: "env \<Rightarrow> nat \<Rightarrow> jsval \<Rightarrow> page \<Rightarrow> (js_error \<times> page) + page" where
  \<comment> \<open>Lines 41 to 51, inside the \<^verbatim>\<open>try\<close>: \<open>Inl\<close> is a throw, with the state at the throw.\<close>
  "respond rt status data s =
     (case (if \<not> response_ok status then Inr True
            else (case get_prop (type_error rt) data (utf16 ''success'') of
                    Inl e \<Rightarrow> Inl e
                  | Inr v \<Rightarrow> Inr (\<not> truthy v))) of
        Inl e \<Rightarrow> Inl (e, s)
      | Inr failed \<Rightarrow>
          if failed then
            (case get_prop (type_error rt) data (utf16 ''message'') of
               Inl e \<Rightarrow> Inl (e, s)
             | Inr m \<Rightarrow>
                 let s1 = s\<lparr>errorMessage :=
                            (if truthy m then m
                             else JStr (utf16 ''Request failed with status '' @ decimal status))\<rparr>
                 in (case get_prop (type_error rt) data (utf16 ''url'') of
                       Inl e \<Rightarrow> Inl (e, s1)
                     | Inr u \<Rightarrow>
                         if truthy u then
                           (case get_prop (type_error rt) data (utf16 ''url'') of
                              Inl e \<Rightarrow> Inl (e, s1)
                            | Inr u' \<Rightarrow> Inr (s1\<lparr>resultUrl := u'\<rparr>))
                         else Inr s1))
          else
            (case get_prop (type_error rt) data (utf16 ''message'') of
               Inl e \<Rightarrow> Inl (e, s)
             | Inr m \<Rightarrow>
                 let s1 = s\<lparr>successMessage :=
                            (if truthy m then m else JStr (utf16 ''Success!''))\<rparr>
                 in (case get_prop (type_error rt) data (utf16 ''url'') of
                       Inl e \<Rightarrow> Inl (e, s1)
                     | Inr u \<Rightarrow> Inr (s1\<lparr>resultUrl := u, isrcInput := []\<rparr>))))"

definition catch :: "js_error \<Rightarrow> page \<Rightarrow> page" where
  \<comment> \<open>Lines 52 to 54.\<close>
  "catch e s =
     s\<lparr>errorMessage :=
         JStr (if message e \<noteq> [] then message e else utf16 ''An unexpected error occurred.'')\<rparr>"

record run =
  awaits :: "page list"      \<comment> \<open>the page at each \<^verbatim>\<open>await\<close> the call reaches, in order\<close>
  requests :: "request list"  \<comment> \<open>the requests the call sends\<close>
  final :: page              \<comment> \<open>the page when the call has returned\<close>

definition handleSubmit :: "env \<Rightarrow> page \<Rightarrow> run" where
  \<comment> \<open>Lines 11 to 58. The call awaits \<^verbatim>\<open>tick()\<close>, then \<^verbatim>\<open>fetch\<close>, then \<^verbatim>\<open>response.json()\<close>;
      the page does not change between the reset of lines 12 to 15 and the last of them.
      \<^verbatim>\<open>finally\<close> clears \<^verbatim>\<open>isLoading\<close> after the \<^verbatim>\<open>try\<close> and after the \<^verbatim>\<open>catch\<close>.\<close>
  "handleSubmit rt s0 =
     (let s1 = s0\<lparr>isLoading := True, resultUrl := JNull, errorMessage := JNull,
                  successMessage := JNull\<rparr>;
          isrcs = parse_isrcs (isrcInput s1)
      in if length isrcs = 0 then
           \<lparr>awaits = [s1], requests = [],
            final = s1\<lparr>errorMessage := JStr (utf16 ''Please enter at least one ISRC.''),
                       isLoading := False\<rparr>\<rparr>
         else
           (case fetch rt (post_request isrcs) of
              Rejects e \<Rightarrow>
                \<lparr>awaits = [s1, s1], requests = [post_request isrcs],
                 final = (catch e s1)\<lparr>isLoading := False\<rparr>\<rparr>
            | Response status b \<Rightarrow>
                (case b of
                   JsonRejects e \<Rightarrow>
                     \<lparr>awaits = [s1, s1, s1], requests = [post_request isrcs],
                      final = (catch e s1)\<lparr>isLoading := False\<rparr>\<rparr>
                 | Json data \<Rightarrow>
                     \<lparr>awaits = [s1, s1, s1], requests = [post_request isrcs],
                      final =
                        (case respond rt status data s1 of
                           Inl (e, s2) \<Rightarrow> catch e s2
                         | Inr s2 \<Rightarrow> s2)\<lparr>isLoading := False\<rparr>\<rparr>)))"


section \<open>What the page shows, and sequences of submissions\<close>

text \<open>
  The template shows the loading line under \<^verbatim>\<open>{#if isLoading}\<close>, the success line under
  \<^verbatim>\<open>{#if successMessage}\<close> and the error line under \<^verbatim>\<open>{#if errorMessage}\<close>; no outcome
  is shown when none of the three holds.
\<close>

datatype outcome = NoOutcome | Loading | Success | Failure

fun holds :: "outcome \<Rightarrow> page \<Rightarrow> bool" where
  "holds Loading s = isLoading s"
| "holds Success s = truthy (successMessage s)"
| "holds Failure s = truthy (errorMessage s)"
| "holds NoOutcome s =
     (\<not> isLoading s \<and> \<not> truthy (successMessage s) \<and> \<not> truthy (errorMessage s))"

definition active :: "page \<Rightarrow> outcome list" where
  "active s = filter (\<lambda>out. holds out s) [NoOutcome, Loading, Success, Failure]"

text \<open>
  Between two submissions the user may edit the text area (\<^verbatim>\<open>bind:value\<close>). The text area
  and the button are disabled while \<^verbatim>\<open>isLoading\<close> holds, so a submission starts only when
  the one before has returned: a session is a list of edits and submissions, each
  submission with the behaviour of the network during it.
\<close>

datatype event = Edit jsstring | Submit env

fun run_events :: "page \<Rightarrow> event list \<Rightarrow> page list" where
  \<comment> \<open>The pages seen at the points where the page is at rest: before each event, at each
      \<^verbatim>\<open>await\<close> of a submission, and at the end.\<close>
  "run_events s [] = [s]"
| "run_events s (Edit text # es) = s # run_events (s\<lparr>isrcInput := text\<rparr>) es"
| "run_events s (Submit rt # es) =
     s # awaits (handleSubmit rt s) @ run_events (final (handleSubmit rt s)) es"

section \<open>Vocabulary of the specification\<close>

abbreviation (input) sent :: "page \<Rightarrow> request" where
  \<comment> \<open>The request a submission of this page sends, when it sends one.\<close>
  "sent s \<equiv> post_request (parse_isrcs (isrcInput s))"

definition field :: "jsval \<Rightarrow> string \<Rightarrow> jsval" where
  \<comment> \<open>The field of a response body: its value when the body is an object that has it,
      \<^verbatim>\<open>undefined\<close> when the body has no such field.\<close>
  "field data k =
     (case data of
        JObj kvs \<Rightarrow> (case map_of kvs (utf16 k) of Some v \<Rightarrow> v | None \<Rightarrow> JUndefined)
      | _ \<Rightarrow> JUndefined)"

text \<open>
  The specification's reading of the parse step, stated without the scanning loop: a
  text is a sequence of lines, each closed by a line ending (CRLF or LF), and a last line
  that no line ending closes; the cleaned list is what trimming leaves of the lines, the
  empty ones dropped, in order.
\<close>

fun text_of :: "(jsstring \<times> jsstring) list \<Rightarrow> jsstring \<Rightarrow> jsstring" where
  "text_of [] end_line = end_line"
| "text_of ((l, t) # ls) end_line = l @ t @ text_of ls end_line"

definition line_ending :: "jsstring \<Rightarrow> bool" where
  "line_ending t \<longleftrightarrow> t = [CR, LF] \<or> t = [LF]"

definition lines_of :: "jsstring \<Rightarrow> (jsstring \<times> jsstring) list \<Rightarrow> jsstring \<Rightarrow> bool" where
  "lines_of s ls end_line \<longleftrightarrow>
     s = text_of ls end_line \<and>
     list_all (\<lambda>(l, t). LF \<notin> set l \<and> line_ending t) ls \<and> LF \<notin> set end_line"

definition cleaned :: "jsstring list \<Rightarrow> jsstring list" where
  "cleaned ls = filter (\<lambda>l. l \<noteq> []) (map js_trim ls)"

section \<open>Scenarios\<close>

definition server :: "nat \<Rightarrow> body \<Rightarrow> env" where
  \<comment> \<open>A server that answers every request with the given status and body.\<close>
  "server status b =
     \<lparr>fetch = (\<lambda>request. Response status b),
      type_error = (\<lambda>k. Error (utf16 ''Cannot read properties of null''))\<rparr>"

definition unreachable :: "js_error \<Rightarrow> env" where
  \<comment> \<open>A network on which every \<^verbatim>\<open>fetch\<close> rejects.\<close>
  "unreachable e =
     \<lparr>fetch = (\<lambda>request. Rejects e),
      type_error = (\<lambda>k. Error (utf16 ''Cannot read properties of null''))\<rparr>"

definition typed :: "jsstring \<Rightarrow> page" where
  \<comment> \<open>The freshly loaded page with a text typed into the text area.\<close>
  "typed text = initial_page\<lparr>isrcInput := text\<rparr>"

definition scenario_input :: jsstring where
  \<comment> \<open>\<^verbatim>\<open>"USRC12345678\n\nUSRC87654321\r\n  \n"\<close>\<close>
  "scenario_input =
     utf16 ''USRC12345678'' @ [LF, LF] @ utf16 ''USRC87654321'' @ [CR, LF] @ utf16 ''  '' @ [LF]"


section \<open>The parse step\<close>

lemma split_newlines_step:
  "split_newlines piece (c # cs) =
     (if c = CR \<and> cs \<noteq> [] \<and> hd cs = LF then rev piece # split_newlines [] (tl cs)
      else if c = LF then rev piece # split_newlines [] cs
      else split_newlines (c # piece) cs)"
  by (cases cs) (auto simp: CR_def LF_def)

lemma split_no_LF: "LF \<notin> set l \<Longrightarrow> split_newlines piece l = [rev piece @ l]"
proof (induction l arbitrary: piece)
  case Nil
  show ?case by simp
next
  case (Cons c l)
  then have "c \<noteq> LF" "LF \<notin> set l" by auto
  moreover from this have "l \<noteq> [] \<Longrightarrow> hd l \<noteq> LF" by (cases l) auto
  ultimately show ?case
    using Cons.IH [of "c # piece"] by (auto simp: split_newlines_step simp del: split_newlines.simps)
qed

lemma split_CRLF:
  "LF \<notin> set l \<Longrightarrow>
   split_newlines piece (l @ CR # LF # rest) = (rev piece @ l) # split_newlines [] rest"
proof (induction l arbitrary: piece)
  case Nil
  show ?case by (simp add: split_newlines_step del: split_newlines.simps)
next
  case (Cons c l)
  then have "c \<noteq> LF" "LF \<notin> set l" by auto
  moreover have "hd (l @ CR # LF # rest) \<noteq> LF"
    using \<open>LF \<notin> set l\<close> by (cases l) (auto simp: CR_def LF_def)
  ultimately show ?case
    using Cons.IH [of "c # piece"] by (simp add: split_newlines_step del: split_newlines.simps)
qed

lemma split_LF:
  "LF \<notin> set l \<Longrightarrow>
   split_newlines piece (l @ LF # rest) =
     (rev piece @ (if l \<noteq> [] \<and> last l = CR then butlast l else l)) # split_newlines [] rest"
proof (induction l arbitrary: piece)
  case Nil
  show ?case by (simp add: split_newlines_step CR_def LF_def del: split_newlines.simps)
next
  case (Cons c l)
  then have c: "c \<noteq> LF" and l: "LF \<notin> set l" by auto
  show ?case
  proof (cases l)
    case Nil
    then show ?thesis using c
      by (simp add: split_newlines_step CR_def LF_def del: split_newlines.simps)
  next
    case (Cons d l')
    then have "hd (l @ LF # rest) \<noteq> LF" using l by auto
    then show ?thesis
      using c Cons Cons.IH [OF l, of "c # piece"]
      by (simp add: split_newlines_step del: split_newlines.simps)
  qed
qed

lemma js_trim_snoc: "is_white_space w \<Longrightarrow> js_trim (xs @ [w]) = js_trim xs"
proof (cases "\<forall>x\<in>set xs. is_white_space x")
  case True
  assume "is_white_space w"
  with True have a: "dropWhile is_white_space (xs @ [w]) = []"
    and b: "dropWhile is_white_space xs = []"
    by (induction xs) auto
  show ?thesis unfolding js_trim_def a b by simp
next
  case False
  assume w: "is_white_space w"
  from False have "dropWhile is_white_space (xs @ [w]) = dropWhile is_white_space xs @ [w]"
    by (induction xs) auto
  with w show ?thesis by (simp add: js_trim_def)
qed

lemma CR_white: "is_white_space CR"
  by (simp add: is_white_space_def CR_def)

lemma js_trim_drop_CR:
  "js_trim (if l \<noteq> [] \<and> last l = CR then butlast l else l) = js_trim l"
proof (cases "l \<noteq> [] \<and> last l = CR")
  case True
  then have "l = butlast l @ [CR]" by (metis append_butlast_last_id)
  then have "js_trim l = js_trim (butlast l)"
    using js_trim_snoc [OF CR_white, of "butlast l"] by simp
  with True show ?thesis by simp
next
  case False
  then show ?thesis by auto
qed

lemma trimmed_lines:
  "list_all (\<lambda>(l, t). LF \<notin> set l \<and> line_ending t) ls \<Longrightarrow> LF \<notin> set end_line \<Longrightarrow>
   map js_trim (split_newlines [] (text_of ls end_line)) = map js_trim (map fst ls @ [end_line])"
proof (induction ls)
  case Nil
  then show ?case by (simp add: split_no_LF)
next
  case (Cons p ls)
  obtain l t where p: "p = (l, t)" by (cases p)
  from Cons.prems p have l: "LF \<notin> set l" and t: "line_ending t"
    and rest: "list_all (\<lambda>(l, t). LF \<notin> set l \<and> line_ending t) ls" by auto
  note IH = Cons.IH [OF rest Cons.prems(2)]
  from t consider "t = [CR, LF]" | "t = [LF]" by (auto simp: line_ending_def)
  then show ?case
  proof cases
    case 1
    with p l IH show ?thesis by (simp add: split_CRLF)
  next
    case 2
    with p l IH show ?thesis
      using js_trim_drop_CR [of l] by (simp add: split_LF del: split_newlines.simps)
  qed
qed


section \<open>The page after a submission\<close>

lemma get_prop_field:
  "get_prop raise data (utf16 k) =
     (if data = JNull \<or> data = JUndefined then Inl (raise (utf16 k)) else Inr (field data k))"
  by (cases data) (simp_all add: field_def)

lemma respond_null:
  "data = JNull \<or> data = JUndefined \<Longrightarrow>
   respond rt status data s =
     Inl (type_error rt (utf16 (if response_ok status then ''success'' else ''message'')), s)"
  by (auto simp: respond_def get_prop_field)

lemma respond_failure:
  "data \<noteq> JNull \<Longrightarrow> data \<noteq> JUndefined \<Longrightarrow>
   \<not> (response_ok status \<and> truthy (field data ''success'')) \<Longrightarrow>
   respond rt status data s =
     Inr (s\<lparr>errorMessage :=
              (if truthy (field data ''message'') then field data ''message''
               else JStr (utf16 ''Request failed with status '' @ decimal status)),
            resultUrl :=
              (if truthy (field data ''url'') then field data ''url'' else resultUrl s)\<rparr>)"
  by (auto simp: respond_def get_prop_field Let_def)

lemma respond_success:
  "response_ok status \<Longrightarrow> truthy (field data ''success'') \<Longrightarrow>
   respond rt status data s =
     Inr (s\<lparr>successMessage :=
              (if truthy (field data ''message'') then field data ''message''
               else JStr (utf16 ''Success!'')),
            resultUrl := field data ''url'', isrcInput := []\<rparr>)"
  by (cases "data = JNull \<or> data = JUndefined")
     (auto simp: respond_def get_prop_field Let_def field_def)

lemma handleSubmit_empty:
  "parse_isrcs (isrcInput s) = [] \<Longrightarrow>
   handleSubmit rt s =
     \<lparr>awaits = [s\<lparr>isLoading := True, resultUrl := JNull, errorMessage := JNull, successMessage := JNull\<rparr>],
      requests = [],
      final = s\<lparr>isLoading := False, resultUrl := JNull,
                errorMessage := JStr (utf16 ''Please enter at least one ISRC.''),
                successMessage := JNull\<rparr>\<rparr>"
  by (simp add: handleSubmit_def)

lemma final_rejects:
  "parse_isrcs (isrcInput s) \<noteq> [] \<Longrightarrow> fetch rt (sent s) = Rejects e \<Longrightarrow>
   final (handleSubmit rt s) =
     s\<lparr>isLoading := False, resultUrl := JNull,
       errorMessage := JStr (if message e \<noteq> [] then message e
                             else utf16 ''An unexpected error occurred.''),
       successMessage := JNull\<rparr>"
  by (simp add: handleSubmit_def catch_def Let_def)

lemma final_json_rejects:
  "parse_isrcs (isrcInput s) \<noteq> [] \<Longrightarrow> fetch rt (sent s) = Response status (JsonRejects e) \<Longrightarrow>
   final (handleSubmit rt s) =
     s\<lparr>isLoading := False, resultUrl := JNull,
       errorMessage := JStr (if message e \<noteq> [] then message e
                             else utf16 ''An unexpected error occurred.''),
       successMessage := JNull\<rparr>"
  by (simp add: handleSubmit_def catch_def Let_def)

lemma final_null:
  "parse_isrcs (isrcInput s) \<noteq> [] \<Longrightarrow> fetch rt (sent s) = Response status (Json data) \<Longrightarrow>
   data = JNull \<or> data = JUndefined \<Longrightarrow>
   final (handleSubmit rt s) =
     s\<lparr>isLoading := False, resultUrl := JNull,
       errorMessage :=
         JStr (let e = type_error rt (utf16 (if response_ok status then ''success'' else ''message''))
               in if message e \<noteq> [] then message e
                  else utf16 ''An unexpected error occurred.''),
       successMessage := JNull\<rparr>"
  by (simp add: handleSubmit_def catch_def respond_null Let_def)

lemma final_failure:
  "parse_isrcs (isrcInput s) \<noteq> [] \<Longrightarrow> fetch rt (sent s) = Response status (Json data) \<Longrightarrow>
   data \<noteq> JNull \<Longrightarrow> data \<noteq> JUndefined \<Longrightarrow>
   \<not> (response_ok status \<and> truthy (field data ''success'')) \<Longrightarrow>
   final (handleSubmit rt s) =
     s\<lparr>isLoading := False,
       resultUrl := (if truthy (field data ''url'') then field data ''url'' else JNull),
       errorMessage := (if truthy (field data ''message'') then field data ''message''
               else JStr (utf16 ''Request failed with status '' @ decimal status)),
       successMessage := JNull\<rparr>"
  by (simp add: handleSubmit_def respond_failure Let_def)

lemma final_success:
  "parse_isrcs (isrcInput s) \<noteq> [] \<Longrightarrow> fetch rt (sent s) = Response status (Json data) \<Longrightarrow>
   response_ok status \<Longrightarrow> truthy (field data ''success'') \<Longrightarrow>
   final (handleSubmit rt s) =
     \<lparr>isrcInput = [], isLoading = False, resultUrl = field data ''url'', errorMessage = JNull,
       successMessage = (if truthy (field data ''message'') then field data ''message''
               else JStr (utf16 ''Success!''))\<rparr>"
  by (simp add: handleSubmit_def respond_success Let_def)

lemma utf16_nonempty [simp]: "utf16 (c # cs) \<noteq> []"
  by (simp add: utf16_def)

lemma decimal_nonempty: "decimal n \<noteq> []"
  by (subst decimal.simps) simp

lemma handleSubmit_cases:
  obtains
    (empty) "parse_isrcs (isrcInput s) = []"
  | (rejects) e where "parse_isrcs (isrcInput s) \<noteq> []" "fetch rt (sent s) = Rejects e"
  | (json_rejects) status e where "parse_isrcs (isrcInput s) \<noteq> []"
      "fetch rt (sent s) = Response status (JsonRejects e)"
  | (null) status data where "parse_isrcs (isrcInput s) \<noteq> []"
      "fetch rt (sent s) = Response status (Json data)" "data = JNull \<or> data = JUndefined"
  | (failure) status data where "parse_isrcs (isrcInput s) \<noteq> []"
      "fetch rt (sent s) = Response status (Json data)" "data \<noteq> JNull" "data \<noteq> JUndefined"
      "\<not> (response_ok status \<and> truthy (field data ''success''))"
  | (success) status data where "parse_isrcs (isrcInput s) \<noteq> []"
      "fetch rt (sent s) = Response status (Json data)"
      "response_ok status" "truthy (field data ''success'')"
proof (cases "parse_isrcs (isrcInput s) = []")
  case True
  then show ?thesis by (rule empty)
next
  case ne: False
  show ?thesis
  proof (cases "fetch rt (sent s)")
    case (Rejects e)
    with ne show ?thesis by (rule rejects)
  next
    case (Response status b)
    show ?thesis
    proof (cases b)
      case (JsonRejects e)
      with ne Response show ?thesis by (auto intro: json_rejects)
    next
      case (Json data)
      with ne Response have f: "fetch rt (sent s) = Response status (Json data)" by simp
      show ?thesis
      proof (cases "data = JNull \<or> data = JUndefined")
        case True
        with ne f show ?thesis by (rule null)
      next
        case False
        show ?thesis
        proof (cases "response_ok status \<and> truthy (field data ''success'')")
          case True
          with ne f show ?thesis by (auto intro: success)
        next
          case False
          with ne f \<open>\<not> (data = JNull \<or> data = JUndefined)\<close> show ?thesis
            by (auto intro: failure)
        qed
      qed
    qed
  qed
qed

lemma requests_handleSubmit:
  "requests (handleSubmit rt s) = (if parse_isrcs (isrcInput s) = [] then [] else [sent s])"
  by (simp add: handleSubmit_def Let_def split: fetched.splits body.splits)

lemma awaits_handleSubmit:
  "p \<in> set (awaits (handleSubmit rt s)) \<Longrightarrow>
   p = s\<lparr>isLoading := True, resultUrl := JNull, errorMessage := JNull, successMessage := JNull\<rparr>"
  by (auto simp: handleSubmit_def Let_def split: fetched.splits body.splits if_splits)

lemma active_failure:
  "truthy e \<Longrightarrow>
   active (s\<lparr>isLoading := False, resultUrl := u, errorMessage := e, successMessage := JNull\<rparr>) =
     [Failure]"
  by (simp add: active_def)

lemma active_final:
  "active (final (handleSubmit rt s)) = [Failure] \<or> active (final (handleSubmit rt s)) = [Success]"
proof (cases rule: handleSubmit_cases [where s=s and rt=rt])
  case empty
  then show ?thesis by (simp add: handleSubmit_empty active_def)
next
  case (rejects e)
  then show ?thesis by (simp add: final_rejects active_def)
next
  case (json_rejects status e)
  then show ?thesis by (simp add: final_json_rejects active_def)
next
  case (null status data)
  then show ?thesis by (simp add: final_null active_def Let_def)
next
  case (failure status data)
  then show ?thesis by (simp add: final_failure active_def decimal_nonempty)
next
  case (success status data)
  then show ?thesis by (simp add: final_success active_def)
qed

lemma page_reset:
  "s\<lparr>isLoading := True, resultUrl := JNull, errorMessage := JNull, successMessage := JNull\<rparr> =
   (typed (isrcInput s))\<lparr>isLoading := True, resultUrl := JNull, errorMessage := JNull,
      successMessage := JNull\<rparr>"
  by (cases s) (simp add: typed_def initial_page_def)

lemma handleSubmit_fresh: "handleSubmit rt s = handleSubmit rt (typed (isrcInput s))"
proof -
  have "isrcInput (typed (isrcInput s)) = isrcInput s"
    by (simp add: typed_def)
  then show ?thesis
    unfolding handleSubmit_def page_reset [of s] by (simp add: Let_def)
qed

lemma active_edit: "active (s\<lparr>isrcInput := text\<rparr>) = active s"
  by (simp add: active_def)

lemma active_awaits: "p \<in> set (awaits (handleSubmit rt s)) \<Longrightarrow> active p = [Loading]"
  by (drule awaits_handleSubmit) (simp add: active_def)

lemma run_events_one:
  "length (active s) = 1 \<Longrightarrow> p \<in> set (run_events s es) \<Longrightarrow> length (active p) = 1"
proof (induction es arbitrary: s)
  case Nil
  then show ?case by simp
next
  case (Cons ev es)
  show ?case
  proof (cases ev)
    case (Edit t)
    with Cons.prems Cons.IH [of "s\<lparr>isrcInput := t\<rparr>"] show ?thesis
      by (auto simp: active_edit)
  next
    case (Submit rt)
    have "length (active (final (handleSubmit rt s))) = 1"
      using active_final [of rt s] by auto
    with Submit Cons.prems Cons.IH [of "final (handleSubmit rt s)"] show ?thesis
      by (auto simp: active_awaits)
  qed
qed

lemma field_not_object: "truthy (field data k) \<Longrightarrow> data \<noteq> JNull \<and> data \<noteq> JUndefined"
  by (auto simp: field_def)

lemma field_str_object: "field data k = JStr m \<Longrightarrow> data \<noteq> JNull \<and> data \<noteq> JUndefined"
  by (auto simp: field_def)

section \<open>Facts about the scenarios\<close>

lemma fetch_server: "fetch (server status b) r = Response status b"
  by (simp add: server_def)

lemma fetch_unreachable: "fetch (unreachable e) r = Rejects e"
  by (simp add: unreachable_def)

lemma isrcInput_typed: "isrcInput (typed t) = t"
  by (simp add: typed_def)

lemma parse_one: "parse_isrcs (utf16 ''USRC12345678'') = [utf16 ''USRC12345678'']"
  by (simp add: parse_isrcs_def js_split_def js_trim_def is_white_space_def utf16_def LF_def CR_def)

lemma parse_blank: "parse_isrcs (utf16 ''   '' @ [LF, LF]) = []"
  by (simp add: parse_isrcs_def js_split_def js_trim_def is_white_space_def utf16_def LF_def CR_def)

lemma parse_typed_one: "parse_isrcs (isrcInput (typed (utf16 ''USRC12345678''))) \<noteq> []"
  by (simp add: isrcInput_typed parse_one)

lemma response_ok_500: "\<not> response_ok 500"
  by (simp add: response_ok_def)

section \<open>Claims\<close>

text \<open>
  C1. The parse step of \<^verbatim>\<open>handleSubmit\<close> produces exactly the lines of the text that are
  non-empty after trimming, trimmed, in their order. Whichever way a text is read as lines
  closed by CRLF or LF (a CR before an LF may be counted to the line or to the line
  ending), the result is the cleaned list of those lines; every text can be read so; and
  the text \<^verbatim>\<open>"USRC12345678\n\nUSRC87654321\r\n  \n"\<close> parses to
  \<^verbatim>\<open>["USRC12345678", "USRC87654321"]\<close>.
\<close>

theorem parse_isrcs_cleaned_lines:
  "(\<forall>ls end_line. lines_of s ls end_line \<longrightarrow>
      parse_isrcs s = cleaned (map fst ls @ [end_line])) \<and>
   (\<exists>ls end_line. lines_of s ls end_line) \<and>
   parse_isrcs scenario_input = [utf16 ''USRC12345678'', utf16 ''USRC87654321'']"
proof (intro conjI allI impI)
  fix ls end_line
  assume "lines_of s ls end_line"
  then show "parse_isrcs s = cleaned (map fst ls @ [end_line])"
    using trimmed_lines [of ls end_line]
    by (simp add: lines_of_def parse_isrcs_def cleaned_def js_split_def del: map_append)
next
  show "\<exists>ls end_line. lines_of s ls end_line"
  proof (induction s)
    case Nil
    have "lines_of [] [] []" by (simp add: lines_of_def)
    then show ?case by blast
  next
    case (Cons c s)
    then obtain ls end_line where *: "lines_of s ls end_line" by blast
    show ?case
    proof (cases "c = LF")
      case True
      with * have "lines_of (c # s) (([], [LF]) # ls) end_line"
        by (simp add: lines_of_def line_ending_def)
      then show ?thesis by blast
    next
      case False
      show ?thesis
      proof (cases ls)
        case Nil
        with * False have "lines_of (c # s) [] (c # end_line)" by (simp add: lines_of_def)
        then show ?thesis by blast
      next
        case (Cons p ls')
        obtain l t where "p = (l, t)" by (cases p)
        with * False Cons have "lines_of (c # s) ((c # l, t) # ls') end_line"
          by (simp add: lines_of_def)
        then show ?thesis by blast
      qed
    qed
  qed
next
  show "parse_isrcs scenario_input = [utf16 ''USRC12345678'', utf16 ''USRC87654321'']"
    by (simp add: scenario_input_def parse_isrcs_def js_split_def js_trim_def
          is_white_space_def utf16_def LF_def CR_def)
qed

text \<open>
  The scenario's text, read as four closed lines and an empty last line.
\<close>

theorem parse_isrcs_cleaned_lines_witness:
  "lines_of scenario_input
     [(utf16 ''USRC12345678'', [LF]), ([], [LF]), (utf16 ''USRC87654321'', [CR, LF]),
      (utf16 ''  '', [LF])] [] \<and>
   parse_isrcs scenario_input =
     cleaned [utf16 ''USRC12345678'', [], utf16 ''USRC87654321'', utf16 ''  '', []] \<and>
   cleaned [utf16 ''USRC12345678'', [], utf16 ''USRC87654321'', utf16 ''  '', []] =
     [utf16 ''USRC12345678'', utf16 ''USRC87654321'']"
proof -
  have h: "lines_of scenario_input
     [(utf16 ''USRC12345678'', [LF]), ([], [LF]), (utf16 ''USRC87654321'', [CR, LF]),
      (utf16 ''  '', [LF])] []"
    by (simp add: lines_of_def scenario_input_def line_ending_def utf16_def LF_def CR_def)
  have c: "cleaned [utf16 ''USRC12345678'', [], utf16 ''USRC87654321'', utf16 ''  '', []] =
     [utf16 ''USRC12345678'', utf16 ''USRC87654321'']"
    by (simp add: cleaned_def js_trim_def is_white_space_def utf16_def)
  from parse_isrcs_cleaned_lines [of scenario_input] h
  have "parse_isrcs scenario_input =
     cleaned (map fst [(utf16 ''USRC12345678'', [LF]), ([], [LF]),
       (utf16 ''USRC87654321'', [CR, LF]), (utf16 ''  '', [LF])] @ [[]])"
    by blast
  with h c show ?thesis by simp
qed

text \<open>
  C2, as the code has it. \<^verbatim>\<open>handleSubmit\<close> ends with the success line shown, and nothing
  else, if and only if a request was sent, the response has a 2xx status and the \<^verbatim>\<open>success\<close>
  field of the parsed body is truthy (line 41 tests \<^verbatim>\<open>!data.success\<close>); then the success
  message is the response's \<^verbatim>\<open>message\<close> when that is truthy and \<^verbatim>\<open>'Success!'\<close> otherwise
  (line 48, \<^verbatim>\<open>data.message || 'Success!'\<close>), \<^verbatim>\<open>resultUrl\<close> is the response's \<^verbatim>\<open>url\<close>
  (\<^verbatim>\<open>undefined\<close> when the body has none) and the text area is cleared.
\<close>

theorem success_state:
  "(active (final (handleSubmit rt s)) = [Success] \<longrightarrow>
      parse_isrcs (isrcInput s) \<noteq> [] \<and>
      (\<exists>status data. fetch rt (sent s) = Response status (Json data) \<and>
         response_ok status \<and> truthy (field data ''success''))) \<and>
   (\<forall>status data.
      parse_isrcs (isrcInput s) \<noteq> [] \<and> fetch rt (sent s) = Response status (Json data) \<and>
      response_ok status \<and> truthy (field data ''success'') \<longrightarrow>
      active (final (handleSubmit rt s)) = [Success] \<and>
      successMessage (final (handleSubmit rt s)) =
        (if truthy (field data ''message'') then field data ''message''
         else JStr (utf16 ''Success!'')) \<and>
      resultUrl (final (handleSubmit rt s)) = field data ''url'' \<and>
      isrcInput (final (handleSubmit rt s)) = [])"
proof (intro conjI impI allI)
  fix status data
  assume "parse_isrcs (isrcInput s) \<noteq> [] \<and> fetch rt (sent s) = Response status (Json data) \<and>
      response_ok status \<and> truthy (field data ''success'')"
  then have fin: "final (handleSubmit rt s) =
     \<lparr>isrcInput = [], isLoading = False, resultUrl = field data ''url'', errorMessage = JNull,
       successMessage = (if truthy (field data ''message'') then field data ''message''
               else JStr (utf16 ''Success!''))\<rparr>"
    by (simp add: final_success)
  show "active (final (handleSubmit rt s)) = [Success]"
    unfolding fin by (simp add: active_def)
  show "successMessage (final (handleSubmit rt s)) =
        (if truthy (field data ''message'') then field data ''message''
         else JStr (utf16 ''Success!''))"
    unfolding fin by simp
  show "resultUrl (final (handleSubmit rt s)) = field data ''url''"
    unfolding fin by simp
  show "isrcInput (final (handleSubmit rt s)) = []"
    unfolding fin by simp
next
  assume a: "active (final (handleSubmit rt s)) = [Success]"
  have "parse_isrcs (isrcInput s) \<noteq> [] \<and>
      (\<exists>status data. fetch rt (sent s) = Response status (Json data) \<and>
         response_ok status \<and> truthy (field data ''success''))"
  proof (cases rule: handleSubmit_cases [where s=s and rt=rt])
    case empty
    with a show ?thesis by (simp add: handleSubmit_empty active_failure)
  next
    case (rejects e)
    with a show ?thesis by (simp add: final_rejects active_failure)
  next
    case (json_rejects status e)
    with a show ?thesis by (simp add: final_json_rejects active_failure)
  next
    case (null status data)
    with a show ?thesis by (simp add: final_null Let_def active_failure)
  next
    case (failure status data)
    with a show ?thesis by (simp add: final_failure decimal_nonempty active_failure)
  next
    case (success status data)
    then show ?thesis by blast
  qed
  then show "parse_isrcs (isrcInput s) \<noteq> []"
    and "\<exists>status data. fetch rt (sent s) = Response status (Json data) \<and>
         response_ok status \<and> truthy (field data ''success'')" by blast+
qed

text \<open>
  The scenario of a server answering \<^verbatim>\<open>{success: true, url: "https://x/lib/42"}\<close>: the default
  message, the link, the input cleared.
\<close>

theorem success_state_witness:
  "active (final (handleSubmit
      (server 200 (Json (JObj [(utf16 ''success'', JBool True),
                               (utf16 ''url'', JStr (utf16 ''https://x/lib/42''))])))
      (typed (utf16 ''USRC12345678'')))) = [Success] \<and>
   successMessage (final (handleSubmit
      (server 200 (Json (JObj [(utf16 ''success'', JBool True),
                               (utf16 ''url'', JStr (utf16 ''https://x/lib/42''))])))
      (typed (utf16 ''USRC12345678'')))) = JStr (utf16 ''Success!'') \<and>
   resultUrl (final (handleSubmit
      (server 200 (Json (JObj [(utf16 ''success'', JBool True),
                               (utf16 ''url'', JStr (utf16 ''https://x/lib/42''))])))
      (typed (utf16 ''USRC12345678'')))) = JStr (utf16 ''https://x/lib/42'') \<and>
   isrcInput (final (handleSubmit
      (server 200 (Json (JObj [(utf16 ''success'', JBool True),
                               (utf16 ''url'', JStr (utf16 ''https://x/lib/42''))])))
      (typed (utf16 ''USRC12345678'')))) = []"
proof -
  let ?data = "JObj [(utf16 ''success'', JBool True),
                     (utf16 ''url'', JStr (utf16 ''https://x/lib/42''))]"
  have f: "field ?data ''success'' = JBool True" "field ?data ''message'' = JUndefined"
    "field ?data ''url'' = JStr (utf16 ''https://x/lib/42'')"
    by (simp_all add: field_def utf16_def)
  have ok: "response_ok 200" by (simp add: response_ok_def)
  from success_state [of "server 200 (Json ?data)" "typed (utf16 ''USRC12345678'')",
      THEN conjunct2, rule_format, of 200 ?data]
  show ?thesis using parse_typed_one ok f by (simp add: fetch_server)
qed

text \<open>
  C2 as stated fails on the body \<^verbatim>\<open>{"success": 1, "message": ""}\<close> with status 200: the
  success line is shown although \<^verbatim>\<open>success\<close> is the number 1 (bit pattern of the double
  1.0) and not \<^verbatim>\<open>true\<close>, and the message shown is \<^verbatim>\<open>'Success!'\<close> although the body has
  a message, the empty string.
\<close>

theorem success_without_true:
  "active (final (handleSubmit
      (server 200 (Json (JObj [(utf16 ''success'', JNum 0x3FF0000000000000),
                               (utf16 ''message'', JStr [])])))
      (typed (utf16 ''USRC12345678'')))) = [Success] \<and>
   field (JObj [(utf16 ''success'', JNum 0x3FF0000000000000), (utf16 ''message'', JStr [])])
     ''success'' \<noteq> JBool True \<and>
   field (JObj [(utf16 ''success'', JNum 0x3FF0000000000000), (utf16 ''message'', JStr [])])
     ''message'' = JStr [] \<and>
   successMessage (final (handleSubmit
      (server 200 (Json (JObj [(utf16 ''success'', JNum 0x3FF0000000000000),
                               (utf16 ''message'', JStr [])])))
      (typed (utf16 ''USRC12345678'')))) = JStr (utf16 ''Success!'')"
proof -
  let ?data = "JObj [(utf16 ''success'', JNum 0x3FF0000000000000), (utf16 ''message'', JStr [])]"
  have f: "field ?data ''success'' = JNum 0x3FF0000000000000" "field ?data ''message'' = JStr []"
    by (simp_all add: field_def utf16_def)
  have t: "truthy (JNum 0x3FF0000000000000)" by (simp add: Let_def)
  have ok: "response_ok 200" by (simp add: response_ok_def)
  have "final (handleSubmit (server 200 (Json ?data)) (typed (utf16 ''USRC12345678''))) =
     \<lparr>isrcInput = [], isLoading = False, resultUrl = field ?data ''url'', errorMessage = JNull,
       successMessage = JStr (utf16 ''Success!'')\<rparr>"
    using final_success [of "typed (utf16 ''USRC12345678'')" "server 200 (Json ?data)" 200 ?data]
      parse_typed_one ok t f by (simp add: fetch_server)
  then show ?thesis using f by (simp add: active_def)
qed

text \<open>
  C3, as the code has it. A response that indicates failure (a status outside 2xx, or a
  falsy \<^verbatim>\<open>success\<close>) whose body parsed to a value other than \<^verbatim>\<open>null\<close> ends with the
  error line shown, and nothing else, with the response's \<^verbatim>\<open>message\<close> when that is truthy
  and \<^verbatim>\<open>Request failed with status N\<close> otherwise. When the body is \<^verbatim>\<open>null\<close>, reading its
  fields throws, and when the body is not valid JSON, \<^verbatim>\<open>response.json()\<close> rejects before
  the status is looked at (line 39 comes before line 41): in both cases the \<^verbatim>\<open>catch\<close> clause
  shows the message of the thrown error, whatever the status.
\<close>

theorem failure_state:
  "(\<forall>status data.
      parse_isrcs (isrcInput s) \<noteq> [] \<and> fetch rt (sent s) = Response status (Json data) \<and>
      data \<noteq> JNull \<and> data \<noteq> JUndefined \<and>
      \<not> (response_ok status \<and> truthy (field data ''success'')) \<longrightarrow>
      active (final (handleSubmit rt s)) = [Failure] \<and>
      errorMessage (final (handleSubmit rt s)) =
        (if truthy (field data ''message'') then field data ''message''
         else JStr (utf16 ''Request failed with status '' @ decimal status))) \<and>
   (\<forall>status data.
      parse_isrcs (isrcInput s) \<noteq> [] \<and> fetch rt (sent s) = Response status (Json data) \<and>
      (data = JNull \<or> data = JUndefined) \<longrightarrow>
      active (final (handleSubmit rt s)) = [Failure] \<and>
      errorMessage (final (handleSubmit rt s)) =
        JStr (let e = type_error rt (utf16 (if response_ok status then ''success'' else ''message''))
              in if message e \<noteq> [] then message e
                 else utf16 ''An unexpected error occurred.'')) \<and>
   (\<forall>status e.
      parse_isrcs (isrcInput s) \<noteq> [] \<and> fetch rt (sent s) = Response status (JsonRejects e) \<longrightarrow>
      active (final (handleSubmit rt s)) = [Failure] \<and>
      errorMessage (final (handleSubmit rt s)) =
        JStr (if message e \<noteq> [] then message e else utf16 ''An unexpected error occurred.''))"
  by (simp add: final_failure final_null final_json_rejects active_failure decimal_nonempty
        Let_def)

text \<open>
  The scenario of HTTP 500 with \<^verbatim>\<open>{success: false, message: "db down"}\<close>, the same without a
  message, a \<^verbatim>\<open>null\<close> body, and a body that does not parse.
\<close>

theorem failure_state_witness:
  "errorMessage (final (handleSubmit
      (server 500 (Json (JObj [(utf16 ''success'', JBool False),
                               (utf16 ''message'', JStr (utf16 ''db down''))])))
      (typed (utf16 ''USRC12345678'')))) = JStr (utf16 ''db down'') \<and>
   errorMessage (final (handleSubmit
      (server 500 (Json (JObj [(utf16 ''success'', JBool False)])))
      (typed (utf16 ''USRC12345678'')))) = JStr (utf16 ''Request failed with status 500'') \<and>
   errorMessage (final (handleSubmit (server 500 (Json JNull))
      (typed (utf16 ''USRC12345678'')))) = JStr (utf16 ''Cannot read properties of null'') \<and>
   errorMessage (final (handleSubmit (server 500 (JsonRejects (Error [])))
      (typed (utf16 ''USRC12345678'')))) = JStr (utf16 ''An unexpected error occurred.'')"
proof -
  let ?s = "typed (utf16 ''USRC12345678'')"
  let ?a = "JObj [(utf16 ''success'', JBool False), (utf16 ''message'', JStr (utf16 ''db down''))]"
  let ?b = "JObj [(utf16 ''success'', JBool False)]"
  have fa: "field ?a ''message'' = JStr (utf16 ''db down'')"
    and fb: "field ?b ''message'' = JUndefined"
    by (simp_all add: field_def utf16_def)
  have d: "decimal 500 = utf16 ''500''"
    by (simp add: decimal.simps utf16_def)
  from failure_state [of ?s "server 500 (Json ?a)", THEN conjunct1, rule_format, of 500 ?a]
  have 1: "errorMessage (final (handleSubmit (server 500 (Json ?a)) ?s)) = JStr (utf16 ''db down'')"
    using parse_typed_one response_ok_500 fa by (simp add: fetch_server)
  from failure_state [of ?s "server 500 (Json ?b)", THEN conjunct1, rule_format, of 500 ?b]
  have 2: "errorMessage (final (handleSubmit (server 500 (Json ?b)) ?s)) =
      JStr (utf16 ''Request failed with status 500'')"
    using parse_typed_one response_ok_500 fb d by (simp add: fetch_server utf16_def)
  from failure_state [of ?s "server 500 (Json JNull)", THEN conjunct2, THEN conjunct1,
      rule_format, of 500 JNull]
  have 3: "errorMessage (final (handleSubmit (server 500 (Json JNull)) ?s)) =
      JStr (utf16 ''Cannot read properties of null'')"
    using parse_typed_one by (simp add: fetch_server server_def)
  from failure_state [of ?s "server 500 (JsonRejects (Error []))", THEN conjunct2,
      THEN conjunct2, rule_format, of 500 "Error []"]
  have 4: "errorMessage (final (handleSubmit (server 500 (JsonRejects (Error []))) ?s)) =
      JStr (utf16 ''An unexpected error occurred.'')"
    using parse_typed_one by (simp add: fetch_server)
  from 1 2 3 4 show ?thesis by simp
qed

text \<open>
  C3 as stated fails on a 500 response whose body is not valid JSON: the message shown is
  that of the parse error, not one derived from the status code.
\<close>

theorem unparsable_body_message:
  "errorMessage (final (handleSubmit
      (server 500 (JsonRejects (Error (utf16 ''Unexpected token < in JSON at position 0''))))
      (typed (utf16 ''USRC12345678'')))) =
     JStr (utf16 ''Unexpected token < in JSON at position 0'') \<and>
   errorMessage (final (handleSubmit
      (server 500 (JsonRejects (Error (utf16 ''Unexpected token < in JSON at position 0''))))
      (typed (utf16 ''USRC12345678'')))) \<noteq>
     JStr (utf16 ''Request failed with status '' @ decimal 500)"
proof -
  have "final (handleSubmit
      (server 500 (JsonRejects (Error (utf16 ''Unexpected token < in JSON at position 0''))))
      (typed (utf16 ''USRC12345678''))) =
      (typed (utf16 ''USRC12345678''))\<lparr>isLoading := False, resultUrl := JNull,
        errorMessage := JStr (utf16 ''Unexpected token < in JSON at position 0''),
        successMessage := JNull\<rparr>"
    using final_json_rejects [of "typed (utf16 ''USRC12345678'')"
        "server 500 (JsonRejects (Error (utf16 ''Unexpected token < in JSON at position 0'')))"
        500 "Error (utf16 ''Unexpected token < in JSON at position 0'')"] parse_typed_one
    by (simp add: fetch_server)
  then show ?thesis by (simp add: utf16_def)
qed

text \<open>
  C4. When the cleaned list is empty, \<^verbatim>\<open>handleSubmit\<close> sends no request and ends with the
  error line \<^verbatim>\<open>Please enter at least one ISRC.\<close> shown, and nothing else; every request it
  sends carries the cleaned list, which is then non-empty.
\<close>

theorem empty_input_sends_nothing:
  "(parse_isrcs (isrcInput s) = [] \<longrightarrow>
      requests (handleSubmit rt s) = [] \<and>
      active (final (handleSubmit rt s)) = [Failure] \<and>
      errorMessage (final (handleSubmit rt s)) = JStr (utf16 ''Please enter at least one ISRC.'')) \<and>
   (\<forall>r \<in> set (requests (handleSubmit rt s)).
      req_body r = parse_isrcs (isrcInput s) \<and> req_body r \<noteq> [])"
  by (simp add: requests_handleSubmit handleSubmit_empty active_def post_request_def)

text \<open>
  The scenario of the input \<^verbatim>\<open>"   \n\n"\<close>, and a submission that does send a request.
\<close>

theorem empty_input_sends_nothing_witness:
  "parse_isrcs (isrcInput (typed (utf16 ''   '' @ [LF, LF]))) = [] \<and>
   requests (handleSubmit (server 200 (Json JNull)) (typed (utf16 ''   '' @ [LF, LF]))) = [] \<and>
   errorMessage (final (handleSubmit (server 200 (Json JNull)) (typed (utf16 ''   '' @ [LF, LF])))) =
     JStr (utf16 ''Please enter at least one ISRC.'') \<and>
   requests (handleSubmit (server 200 (Json JNull)) (typed (utf16 ''USRC12345678''))) =
     [post_request [utf16 ''USRC12345678'']] \<and>
   list_all (\<lambda>r. req_body r \<noteq> [])
     (requests (handleSubmit (server 200 (Json JNull)) (typed (utf16 ''USRC12345678''))))"
proof -
  have blank: "parse_isrcs (isrcInput (typed (utf16 ''   '' @ [LF, LF]))) = []"
    by (simp add: typed_def parse_blank)
  have one: "requests (handleSubmit (server 200 (Json JNull)) (typed (utf16 ''USRC12345678''))) =
     [post_request [utf16 ''USRC12345678'']]"
    by (simp add: requests_handleSubmit typed_def parse_one)
  from empty_input_sends_nothing
         [of "typed (utf16 ''   '' @ [LF, LF])" "server 200 (Json JNull)"] blank
  have "requests (handleSubmit (server 200 (Json JNull)) (typed (utf16 ''   '' @ [LF, LF]))) = []"
    and "errorMessage (final (handleSubmit (server 200 (Json JNull))
           (typed (utf16 ''   '' @ [LF, LF])))) = JStr (utf16 ''Please enter at least one ISRC.'')"
    by blast+
  moreover from empty_input_sends_nothing
         [of "typed (utf16 ''USRC12345678'')" "server 200 (Json JNull)"]
  have "list_all (\<lambda>r. req_body r \<noteq> [])
     (requests (handleSubmit (server 200 (Json JNull)) (typed (utf16 ''USRC12345678''))))"
    by (auto simp: list_all_iff)
  ultimately show ?thesis using blank one by simp
qed

text \<open>
  C5. On a failure response (a status outside 2xx, or a falsy \<^verbatim>\<open>success\<close>) whose body
  includes a url, a non-empty string, \<^verbatim>\<open>resultUrl\<close> is set to that url and the link is
  rendered (\<^verbatim>\<open>{#if resultUrl}\<close>) next to the error line. In general, on a failure response
  with a body other than \<^verbatim>\<open>null\<close>, \<^verbatim>\<open>resultUrl\<close> is the body's \<^verbatim>\<open>url\<close> when that is truthy
  (line 44) and stays \<^verbatim>\<open>null\<close> otherwise.
\<close>

theorem failure_url_surfaced:
  "(\<forall>status data u.
      parse_isrcs (isrcInput s) \<noteq> [] \<and> fetch rt (sent s) = Response status (Json data) \<and>
      \<not> (response_ok status \<and> truthy (field data ''success'')) \<and>
      field data ''url'' = JStr u \<and> u \<noteq> [] \<longrightarrow>
      active (final (handleSubmit rt s)) = [Failure] \<and>
      resultUrl (final (handleSubmit rt s)) = JStr u \<and>
      truthy (resultUrl (final (handleSubmit rt s)))) \<and>
   (\<forall>status data.
      parse_isrcs (isrcInput s) \<noteq> [] \<and> fetch rt (sent s) = Response status (Json data) \<and>
      \<not> (response_ok status \<and> truthy (field data ''success'')) \<and>
      data \<noteq> JNull \<and> data \<noteq> JUndefined \<longrightarrow>
      active (final (handleSubmit rt s)) = [Failure] \<and>
      resultUrl (final (handleSubmit rt s)) =
        (if truthy (field data ''url'') then field data ''url'' else JNull))"
proof (intro conjI allI impI)
  fix status data u
  assume a: "parse_isrcs (isrcInput s) \<noteq> [] \<and> fetch rt (sent s) = Response status (Json data) \<and>
      \<not> (response_ok status \<and> truthy (field data ''success'')) \<and>
      field data ''url'' = JStr u \<and> u \<noteq> []"
  then have "data \<noteq> JNull \<and> data \<noteq> JUndefined" by (blast dest: field_str_object)
  with a have fin: "final (handleSubmit rt s) =
     s\<lparr>isLoading := False, resultUrl := JStr u,
       errorMessage := (if truthy (field data ''message'') then field data ''message''
               else JStr (utf16 ''Request failed with status '' @ decimal status)),
       successMessage := JNull\<rparr>"
    by (simp add: final_failure)
  show "active (final (handleSubmit rt s)) = [Failure]"
    unfolding fin by (simp add: active_failure decimal_nonempty)
  show "resultUrl (final (handleSubmit rt s)) = JStr u"
    unfolding fin by simp
  show "truthy (resultUrl (final (handleSubmit rt s)))"
    unfolding fin using a by simp
next
  fix status data
  assume a: "parse_isrcs (isrcInput s) \<noteq> [] \<and> fetch rt (sent s) = Response status (Json data) \<and>
      \<not> (response_ok status \<and> truthy (field data ''success'')) \<and>
      data \<noteq> JNull \<and> data \<noteq> JUndefined"
  then have fin: "final (handleSubmit rt s) =
     s\<lparr>isLoading := False,
       resultUrl := (if truthy (field data ''url'') then field data ''url'' else JNull),
       errorMessage := (if truthy (field data ''message'') then field data ''message''
               else JStr (utf16 ''Request failed with status '' @ decimal status)),
       successMessage := JNull\<rparr>"
    by (simp add: final_failure)
  show "active (final (handleSubmit rt s)) = [Failure]"
    unfolding fin by (simp add: active_failure decimal_nonempty)
  show "resultUrl (final (handleSubmit rt s)) =
        (if truthy (field data ''url'') then field data ''url'' else JNull)"
    unfolding fin by simp
qed

text \<open>
  A 500 response that carries a url, and a failure response that carries none.
\<close>

theorem failure_url_surfaced_witness:
  "active (final (handleSubmit
      (server 500 (Json (JObj [(utf16 ''success'', JBool False),
                               (utf16 ''url'', JStr (utf16 ''https://x/lib/42''))])))
      (typed (utf16 ''USRC12345678'')))) = [Failure] \<and>
   resultUrl (final (handleSubmit
      (server 500 (Json (JObj [(utf16 ''success'', JBool False),
                               (utf16 ''url'', JStr (utf16 ''https://x/lib/42''))])))
      (typed (utf16 ''USRC12345678'')))) = JStr (utf16 ''https://x/lib/42'') \<and>
   resultUrl (final (handleSubmit
      (server 200 (Json (JObj [(utf16 ''success'', JBool False),
                               (utf16 ''message'', JStr (utf16 ''db down''))])))
      (typed (utf16 ''USRC12345678'')))) = JNull"
proof -
  let ?s = "typed (utf16 ''USRC12345678'')"
  let ?a = "JObj [(utf16 ''success'', JBool False),
                  (utf16 ''url'', JStr (utf16 ''https://x/lib/42''))]"
  let ?b = "JObj [(utf16 ''success'', JBool False), (utf16 ''message'', JStr (utf16 ''db down''))]"
  have fa: "field ?a ''url'' = JStr (utf16 ''https://x/lib/42'')"
    and fb: "field ?b ''url'' = JUndefined" "field ?b ''success'' = JBool False"
    by (simp_all add: field_def utf16_def)
  from failure_url_surfaced [of ?s "server 500 (Json ?a)", THEN conjunct1, rule_format,
      of 500 ?a "utf16 ''https://x/lib/42''"]
  have 1: "active (final (handleSubmit (server 500 (Json ?a)) ?s)) = [Failure] \<and>
      resultUrl (final (handleSubmit (server 500 (Json ?a)) ?s)) = JStr (utf16 ''https://x/lib/42'')"
    using parse_typed_one response_ok_500 fa by (simp add: fetch_server)
  from failure_url_surfaced [of ?s "server 200 (Json ?b)", THEN conjunct2, rule_format,
      of 200 ?b]
  have 2: "resultUrl (final (handleSubmit (server 200 (Json ?b)) ?s)) = JNull"
    using parse_typed_one fb by (simp add: fetch_server)
  from 1 2 show ?thesis by simp
qed

text \<open>
  C6. When \<^verbatim>\<open>fetch\<close> rejects, or \<^verbatim>\<open>response.json()\<close> rejects because the body is not valid
  JSON, \<^verbatim>\<open>handleSubmit\<close> ends with the error line shown, and nothing else, with the message
  of the thrown error, or \<^verbatim>\<open>An unexpected error occurred.\<close> when the error has none (an
  Error without a message has the empty string as its \<^verbatim>\<open>message\<close>); \<^verbatim>\<open>resultUrl\<close> is
  \<^verbatim>\<open>null\<close>.
\<close>

theorem thrown_error_state:
  "(\<forall>e. parse_isrcs (isrcInput s) \<noteq> [] \<and> fetch rt (sent s) = Rejects e \<longrightarrow>
      active (final (handleSubmit rt s)) = [Failure] \<and>
      errorMessage (final (handleSubmit rt s)) =
        JStr (if message e \<noteq> [] then message e else utf16 ''An unexpected error occurred.'') \<and>
      resultUrl (final (handleSubmit rt s)) = JNull) \<and>
   (\<forall>status e.
      parse_isrcs (isrcInput s) \<noteq> [] \<and> fetch rt (sent s) = Response status (JsonRejects e) \<longrightarrow>
      active (final (handleSubmit rt s)) = [Failure] \<and>
      errorMessage (final (handleSubmit rt s)) =
        JStr (if message e \<noteq> [] then message e else utf16 ''An unexpected error occurred.'') \<and>
      resultUrl (final (handleSubmit rt s)) = JNull)"
  by (auto simp: final_rejects final_json_rejects active_def)

theorem thrown_error_state_witness:
  "active (final (handleSubmit (unreachable (Error (utf16 ''Failed to fetch'')))
      (typed (utf16 ''USRC12345678'')))) = [Failure] \<and>
   errorMessage (final (handleSubmit (unreachable (Error (utf16 ''Failed to fetch'')))
      (typed (utf16 ''USRC12345678'')))) = JStr (utf16 ''Failed to fetch'') \<and>
   resultUrl (final (handleSubmit (unreachable (Error (utf16 ''Failed to fetch'')))
      (typed (utf16 ''USRC12345678'')))) = JNull \<and>
   active (final (handleSubmit (server 200 (JsonRejects (Error [])))
      (typed (utf16 ''USRC12345678'')))) = [Failure] \<and>
   errorMessage (final (handleSubmit (server 200 (JsonRejects (Error [])))
      (typed (utf16 ''USRC12345678'')))) = JStr (utf16 ''An unexpected error occurred.'') \<and>
   resultUrl (final (handleSubmit (server 200 (JsonRejects (Error [])))
      (typed (utf16 ''USRC12345678'')))) = JNull"
proof -
  let ?s = "typed (utf16 ''USRC12345678'')"
  from thrown_error_state [of ?s "unreachable (Error (utf16 ''Failed to fetch''))",
      THEN conjunct1, rule_format, of "Error (utf16 ''Failed to fetch'')"]
  have 1: "active (final (handleSubmit (unreachable (Error (utf16 ''Failed to fetch''))) ?s)) =
      [Failure] \<and>
    errorMessage (final (handleSubmit (unreachable (Error (utf16 ''Failed to fetch''))) ?s)) =
      JStr (utf16 ''Failed to fetch'') \<and>
    resultUrl (final (handleSubmit (unreachable (Error (utf16 ''Failed to fetch''))) ?s)) = JNull"
    using parse_typed_one by (simp add: fetch_unreachable)
  from thrown_error_state [of ?s "server 200 (JsonRejects (Error []))",
      THEN conjunct2, rule_format, of 200 "Error []"]
  have 2: "active (final (handleSubmit (server 200 (JsonRejects (Error []))) ?s)) = [Failure] \<and>
    errorMessage (final (handleSubmit (server 200 (JsonRejects (Error []))) ?s)) =
      JStr (utf16 ''An unexpected error occurred.'') \<and>
    resultUrl (final (handleSubmit (server 200 (JsonRejects (Error []))) ?s)) = JNull"
    using parse_typed_one by (simp add: fetch_server)
  from 1 2 show ?thesis by simp
qed

text \<open>
  C7. After every call of \<^verbatim>\<open>handleSubmit\<close> that has returned, whichever branch it took
  (validation error, success, failure response, thrown error), \<^verbatim>\<open>isLoading\<close> is false.
\<close>

theorem loading_cleared: "isLoading (final (handleSubmit rt s)) = False"
proof (cases rule: handleSubmit_cases [where s=s and rt=rt])
  case empty
  then show ?thesis by (simp add: handleSubmit_empty)
next
  case (rejects e)
  then show ?thesis by (simp add: final_rejects)
next
  case (json_rejects status e)
  then show ?thesis by (simp add: final_json_rejects)
next
  case (null status data)
  then show ?thesis by (simp add: final_null)
next
  case (failure status data)
  then show ?thesis by (simp add: final_failure)
next
  case (success status data)
  then show ?thesis by (simp add: final_success)
qed

theorem loading_cleared_witness:
  "isLoading (final (handleSubmit (unreachable (Error [])) (typed scenario_input))) = False"
  by (rule loading_cleared)

text \<open>
  C8. In every session that starts on the freshly loaded page, at every point where the
  page is at rest exactly one of no outcome, loading, success and error holds. A
  submission overwrites the outcome before it: its whole course is that of the same
  submission on a fresh page with the same input, and at each of its \<^verbatim>\<open>await\<close>s the page
  shows loading only, with \<^verbatim>\<open>resultUrl\<close>, \<^verbatim>\<open>errorMessage\<close> and \<^verbatim>\<open>successMessage\<close> reset
  to \<^verbatim>\<open>null\<close>.
\<close>

theorem one_outcome_at_a_time:
  "(\<forall>p \<in> set (run_events initial_page es). length (active p) = 1) \<and>
   handleSubmit rt s = handleSubmit rt (typed (isrcInput s)) \<and>
   (\<forall>p \<in> set (awaits (handleSubmit rt s)).
      active p = [Loading] \<and> resultUrl p = JNull \<and> errorMessage p = JNull \<and>
      successMessage p = JNull)"
proof (intro conjI ballI)
  fix p assume "p \<in> set (run_events initial_page es)"
  moreover have "length (active initial_page) = 1"
    by (simp add: active_def initial_page_def)
  ultimately show "length (active p) = 1" by (rule run_events_one [rotated])
next
  show "handleSubmit rt s = handleSubmit rt (typed (isrcInput s))"
    by (rule handleSubmit_fresh)
next
  fix p assume p: "p \<in> set (awaits (handleSubmit rt s))"
  then show "active p = [Loading]" by (rule active_awaits)
  from awaits_handleSubmit [OF p]
  show "resultUrl p = JNull" "errorMessage p = JNull" "successMessage p = JNull" by simp_all
qed

theorem one_outcome_at_a_time_witness:
  "list_all (\<lambda>p. length (active p) = 1)
     (run_events initial_page
        [Edit (utf16 ''USRC12345678''),
         Submit (server 200 (Json (JObj [(utf16 ''success'', JBool True)]))),
         Submit (unreachable (Error (utf16 ''Failed to fetch'')))]) \<and>
   handleSubmit (unreachable (Error (utf16 ''Failed to fetch'')))
     \<lparr>isrcInput = utf16 ''USRC12345678'', isLoading = False,
      resultUrl = JStr (utf16 ''https://x/lib/42''), errorMessage = JNull,
      successMessage = JStr (utf16 ''Success!'')\<rparr> =
   handleSubmit (unreachable (Error (utf16 ''Failed to fetch'')))
     (typed (utf16 ''USRC12345678'')) \<and>
   list_all (\<lambda>p. active p = [Loading] \<and> resultUrl p = JNull \<and> errorMessage p = JNull \<and>
                  successMessage p = JNull)
     (awaits (handleSubmit (unreachable (Error (utf16 ''Failed to fetch'')))
        (typed (utf16 ''USRC12345678'')))) \<and>
   awaits (handleSubmit (unreachable (Error (utf16 ''Failed to fetch'')))
        (typed (utf16 ''USRC12345678''))) \<noteq> []"
proof -
  let ?rt = "unreachable (Error (utf16 ''Failed to fetch''))"
  let ?es = "[Edit (utf16 ''USRC12345678''),
          Submit (server 200 (Json (JObj [(utf16 ''success'', JBool True)]))),
          Submit ?rt]"
  let ?old = "\<lparr>isrcInput = utf16 ''USRC12345678'', isLoading = False,
      resultUrl = JStr (utf16 ''https://x/lib/42''), errorMessage = JNull,
      successMessage = JStr (utf16 ''Success!'')\<rparr>"
  from one_outcome_at_a_time [of ?es ?rt ?old, THEN conjunct1]
  have 1: "list_all (\<lambda>p. length (active p) = 1) (run_events initial_page ?es)"
    by (simp only: list_all_iff)
  from one_outcome_at_a_time [of ?es ?rt ?old, THEN conjunct2, THEN conjunct1]
  have 2: "handleSubmit ?rt ?old = handleSubmit ?rt (typed (utf16 ''USRC12345678''))"
    by simp
  from one_outcome_at_a_time [of ?es ?rt "typed (utf16 ''USRC12345678'')",
      THEN conjunct2, THEN conjunct2]
  have 3: "list_all (\<lambda>p. active p = [Loading] \<and> resultUrl p = JNull \<and>
      errorMessage p = JNull \<and> successMessage p = JNull)
     (awaits (handleSubmit ?rt (typed (utf16 ''USRC12345678''))))"
    by (simp only: list_all_iff)
  have 4: "awaits (handleSubmit ?rt (typed (utf16 ''USRC12345678''))) \<noteq> []"
    using parse_typed_one
    by (simp add: handleSubmit_def Let_def fetch_unreachable)
  from 1 2 3 4 show ?thesis by blast
qed

text \<open>
  C9. The text area keeps its text on a validation error, when \<^verbatim>\<open>fetch\<close> rejects, when
  \<^verbatim>\<open>response.json()\<close> rejects and on a failure response; it is cleared on the success
  branch, and only there.
\<close>

theorem input_kept_unless_success:
  "(parse_isrcs (isrcInput s) = [] \<longrightarrow> isrcInput (final (handleSubmit rt s)) = isrcInput s) \<and>
   (\<forall>e. parse_isrcs (isrcInput s) \<noteq> [] \<and> fetch rt (sent s) = Rejects e \<longrightarrow>
      isrcInput (final (handleSubmit rt s)) = isrcInput s) \<and>
   (\<forall>status e.
      parse_isrcs (isrcInput s) \<noteq> [] \<and> fetch rt (sent s) = Response status (JsonRejects e) \<longrightarrow>
      isrcInput (final (handleSubmit rt s)) = isrcInput s) \<and>
   (\<forall>status data.
      parse_isrcs (isrcInput s) \<noteq> [] \<and> fetch rt (sent s) = Response status (Json data) \<and>
      \<not> (response_ok status \<and> truthy (field data ''success'')) \<longrightarrow>
      isrcInput (final (handleSubmit rt s)) = isrcInput s) \<and>
   (\<forall>status data.
      parse_isrcs (isrcInput s) \<noteq> [] \<and> fetch rt (sent s) = Response status (Json data) \<and>
      response_ok status \<and> truthy (field data ''success'') \<longrightarrow>
      isrcInput (final (handleSubmit rt s)) = [])"
proof (intro conjI allI impI)
  fix status data
  assume a: "parse_isrcs (isrcInput s) \<noteq> [] \<and> fetch rt (sent s) = Response status (Json data) \<and>
      \<not> (response_ok status \<and> truthy (field data ''success''))"
  show "isrcInput (final (handleSubmit rt s)) = isrcInput s"
  proof (cases "data = JNull \<or> data = JUndefined")
    case True
    with a show ?thesis by (simp add: final_null)
  next
    case False
    with a show ?thesis by (simp add: final_failure)
  qed
qed (simp_all add: handleSubmit_empty final_rejects final_json_rejects final_success)

theorem input_kept_unless_success_witness:
  "isrcInput (final (handleSubmit (server 200 (Json JNull)) (typed (utf16 ''   '' @ [LF, LF])))) =
     utf16 ''   '' @ [LF, LF] \<and>
   isrcInput (final (handleSubmit (unreachable (Error (utf16 ''Failed to fetch'')))
      (typed (utf16 ''USRC12345678'')))) = utf16 ''USRC12345678'' \<and>
   isrcInput (final (handleSubmit (server 200 (JsonRejects (Error [])))
      (typed (utf16 ''USRC12345678'')))) = utf16 ''USRC12345678'' \<and>
   isrcInput (final (handleSubmit (server 500 (Json (JObj [(utf16 ''success'', JBool True)])))
      (typed (utf16 ''USRC12345678'')))) = utf16 ''USRC12345678'' \<and>
   isrcInput (final (handleSubmit (server 200 (Json (JObj [(utf16 ''success'', JBool True)])))
      (typed (utf16 ''USRC12345678'')))) = []"
proof -
  let ?s = "typed (utf16 ''USRC12345678'')"
  let ?blank = "typed (utf16 ''   '' @ [LF, LF])"
  let ?data = "JObj [(utf16 ''success'', JBool True)]"
  have f: "field ?data ''success'' = JBool True"
    by (simp add: field_def utf16_def)
  have ok: "response_ok 200" by (simp add: response_ok_def)
  have blank: "parse_isrcs (isrcInput ?blank) = []"
    by (simp add: isrcInput_typed parse_blank)
  note inst = input_kept_unless_success
  from inst [of ?blank "server 200 (Json JNull)", THEN conjunct1] blank
  have 1: "isrcInput (final (handleSubmit (server 200 (Json JNull)) ?blank)) =
      utf16 ''   '' @ [LF, LF]"
    by (simp add: isrcInput_typed)
  from inst [of ?s "unreachable (Error (utf16 ''Failed to fetch''))", THEN conjunct2,
      THEN conjunct1, rule_format, of "Error (utf16 ''Failed to fetch'')"]
  have 2: "isrcInput (final (handleSubmit (unreachable (Error (utf16 ''Failed to fetch''))) ?s)) =
      utf16 ''USRC12345678''"
    using parse_typed_one by (simp add: fetch_unreachable isrcInput_typed)
  from inst [of ?s "server 200 (JsonRejects (Error []))", THEN conjunct2, THEN conjunct2,
      THEN conjunct1, rule_format, of 200 "Error []"]
  have 3: "isrcInput (final (handleSubmit (server 200 (JsonRejects (Error []))) ?s)) =
      utf16 ''USRC12345678''"
    using parse_typed_one by (simp add: fetch_server isrcInput_typed)
  from inst [of ?s "server 500 (Json ?data)", THEN conjunct2, THEN conjunct2, THEN conjunct2,
      THEN conjunct1, rule_format, of 500 ?data]
  have 4: "isrcInput (final (handleSubmit (server 500 (Json ?data)) ?s)) = utf16 ''USRC12345678''"
    using parse_typed_one response_ok_500 by (simp add: fetch_server isrcInput_typed)
  from inst [of ?s "server 200 (Json ?data)", THEN conjunct2, THEN conjunct2, THEN conjunct2,
      THEN conjunct2, rule_format, of 200 ?data]
  have 5: "isrcInput (final (handleSubmit (server 200 (Json ?data)) ?s)) = []"
    using parse_typed_one ok f by (simp add: fetch_server)
  from 1 2 3 4 5 show ?thesis by simp
qed

text \<open>
  C10. Whether a response has a message or a url is decided by truthiness. The message
  shown is the body's \<^verbatim>\<open>message\<close> when that is truthy and the default otherwise, on the
  success branch (\<^verbatim>\<open>'Success!'\<close>) and on the failure branch (the one made from the status
  code); on a failure response \<^verbatim>\<open>resultUrl\<close> is the body's \<^verbatim>\<open>url\<close> when that is truthy and
  stays \<^verbatim>\<open>null\<close> otherwise. In particular a \<^verbatim>\<open>message\<close> that is the empty string gets the
  default message on both branches, and a failure response whose \<^verbatim>\<open>url\<close> is the empty
  string surfaces no url.
\<close>

theorem presence_by_truthiness:
  "(\<forall>status data.
      parse_isrcs (isrcInput s) \<noteq> [] \<and> fetch rt (sent s) = Response status (Json data) \<and>
      response_ok status \<and> truthy (field data ''success'') \<longrightarrow>
      successMessage (final (handleSubmit rt s)) =
        (if truthy (field data ''message'') then field data ''message''
         else JStr (utf16 ''Success!''))) \<and>
   (\<forall>status data.
      parse_isrcs (isrcInput s) \<noteq> [] \<and> fetch rt (sent s) = Response status (Json data) \<and>
      \<not> (response_ok status \<and> truthy (field data ''success'')) \<and>
      data \<noteq> JNull \<and> data \<noteq> JUndefined \<longrightarrow>
      errorMessage (final (handleSubmit rt s)) =
        (if truthy (field data ''message'') then field data ''message''
         else JStr (utf16 ''Request failed with status '' @ decimal status)) \<and>
      resultUrl (final (handleSubmit rt s)) =
        (if truthy (field data ''url'') then field data ''url'' else JNull)) \<and>
   (\<forall>status data.
      parse_isrcs (isrcInput s) \<noteq> [] \<and> fetch rt (sent s) = Response status (Json data) \<and>
      response_ok status \<and> truthy (field data ''success'') \<and> field data ''message'' = JStr [] \<longrightarrow>
      successMessage (final (handleSubmit rt s)) = JStr (utf16 ''Success!'')) \<and>
   (\<forall>status data.
      parse_isrcs (isrcInput s) \<noteq> [] \<and> fetch rt (sent s) = Response status (Json data) \<and>
      \<not> (response_ok status \<and> truthy (field data ''success'')) \<and>
      field data ''message'' = JStr [] \<longrightarrow>
      errorMessage (final (handleSubmit rt s)) =
        JStr (utf16 ''Request failed with status '' @ decimal status)) \<and>
   (\<forall>status data.
      parse_isrcs (isrcInput s) \<noteq> [] \<and> fetch rt (sent s) = Response status (Json data) \<and>
      \<not> (response_ok status \<and> truthy (field data ''success'')) \<and>
      field data ''url'' = JStr [] \<longrightarrow>
      resultUrl (final (handleSubmit rt s)) = JNull \<and>
      \<not> truthy (resultUrl (final (handleSubmit rt s))))"
proof (intro conjI allI impI)
  fix status data
  assume "parse_isrcs (isrcInput s) \<noteq> [] \<and> fetch rt (sent s) = Response status (Json data) \<and>
      response_ok status \<and> truthy (field data ''success'')"
  then show "successMessage (final (handleSubmit rt s)) =
        (if truthy (field data ''message'') then field data ''message''
         else JStr (utf16 ''Success!''))"
    by (simp add: final_success)
next
  fix status data
  assume a: "parse_isrcs (isrcInput s) \<noteq> [] \<and> fetch rt (sent s) = Response status (Json data) \<and>
      \<not> (response_ok status \<and> truthy (field data ''success'')) \<and>
      data \<noteq> JNull \<and> data \<noteq> JUndefined"
  then show "errorMessage (final (handleSubmit rt s)) =
        (if truthy (field data ''message'') then field data ''message''
         else JStr (utf16 ''Request failed with status '' @ decimal status))"
    by (simp add: final_failure)
  from a show "resultUrl (final (handleSubmit rt s)) =
        (if truthy (field data ''url'') then field data ''url'' else JNull)"
    by (simp add: final_failure)
next
  fix status data
  assume "parse_isrcs (isrcInput s) \<noteq> [] \<and> fetch rt (sent s) = Response status (Json data) \<and>
      response_ok status \<and> truthy (field data ''success'') \<and> field data ''message'' = JStr []"
  then show "successMessage (final (handleSubmit rt s)) = JStr (utf16 ''Success!'')"
    by (simp add: final_success)
next
  fix status data
  assume a: "parse_isrcs (isrcInput s) \<noteq> [] \<and> fetch rt (sent s) = Response status (Json data) \<and>
      \<not> (response_ok status \<and> truthy (field data ''success'')) \<and>
      field data ''message'' = JStr []"
  then have "data \<noteq> JNull \<and> data \<noteq> JUndefined" by (blast dest: field_str_object)
  with a show "errorMessage (final (handleSubmit rt s)) =
        JStr (utf16 ''Request failed with status '' @ decimal status)"
    by (simp add: final_failure)
next
  fix status data
  assume a: "parse_isrcs (isrcInput s) \<noteq> [] \<and> fetch rt (sent s) = Response status (Json data) \<and>
      \<not> (response_ok status \<and> truthy (field data ''success'')) \<and>
      field data ''url'' = JStr []"
  then have "data \<noteq> JNull \<and> data \<noteq> JUndefined" by (blast dest: field_str_object)
  with a have r: "resultUrl (final (handleSubmit rt s)) = JNull"
    by (simp add: final_failure)
  then show "resultUrl (final (handleSubmit rt s)) = JNull" .
  from r show "\<not> truthy (resultUrl (final (handleSubmit rt s)))" by simp
qed

text \<open>
  Non-empty fields are shown as they are; empty ones are treated as missing.
\<close>

theorem presence_by_truthiness_witness:
  "successMessage (final (handleSubmit
      (server 200 (Json (JObj [(utf16 ''success'', JBool True),
                               (utf16 ''message'', JStr (utf16 ''ok''))])))
      (typed (utf16 ''USRC12345678'')))) = JStr (utf16 ''ok'') \<and>
   successMessage (final (handleSubmit
      (server 200 (Json (JObj [(utf16 ''success'', JBool True), (utf16 ''message'', JStr [])])))
      (typed (utf16 ''USRC12345678'')))) = JStr (utf16 ''Success!'') \<and>
   errorMessage (final (handleSubmit
      (server 500 (Json (JObj [(utf16 ''message'', JStr (utf16 ''db down'')),
                               (utf16 ''url'', JStr (utf16 ''https://x/lib/42''))])))
      (typed (utf16 ''USRC12345678'')))) = JStr (utf16 ''db down'') \<and>
   resultUrl (final (handleSubmit
      (server 500 (Json (JObj [(utf16 ''message'', JStr (utf16 ''db down'')),
                               (utf16 ''url'', JStr (utf16 ''https://x/lib/42''))])))
      (typed (utf16 ''USRC12345678'')))) = JStr (utf16 ''https://x/lib/42'') \<and>
   errorMessage (final (handleSubmit
      (server 500 (Json (JObj [(utf16 ''message'', JStr []), (utf16 ''url'', JStr [])])))
      (typed (utf16 ''USRC12345678'')))) = JStr (utf16 ''Request failed with status 500'') \<and>
   resultUrl (final (handleSubmit
      (server 500 (Json (JObj [(utf16 ''message'', JStr []), (utf16 ''url'', JStr [])])))
      (typed (utf16 ''USRC12345678'')))) = JNull"
proof -
  let ?s = "typed (utf16 ''USRC12345678'')"
  let ?ok = "JObj [(utf16 ''success'', JBool True), (utf16 ''message'', JStr (utf16 ''ok''))]"
  let ?a = "JObj [(utf16 ''success'', JBool True), (utf16 ''message'', JStr [])]"
  let ?c = "JObj [(utf16 ''message'', JStr (utf16 ''db down'')),
                  (utf16 ''url'', JStr (utf16 ''https://x/lib/42''))]"
  let ?b = "JObj [(utf16 ''message'', JStr []), (utf16 ''url'', JStr [])]"
  have fo: "field ?ok ''success'' = JBool True" "field ?ok ''message'' = JStr (utf16 ''ok'')"
    and fa: "field ?a ''success'' = JBool True" "field ?a ''message'' = JStr []"
    and fc: "field ?c ''message'' = JStr (utf16 ''db down'')"
            "field ?c ''url'' = JStr (utf16 ''https://x/lib/42'')"
    and fb: "field ?b ''message'' = JStr []" "field ?b ''url'' = JStr []"
    by (simp_all add: field_def utf16_def)
  have ok: "response_ok 200" by (simp add: response_ok_def)
  have d: "decimal 500 = utf16 ''500''"
    by (simp add: decimal.simps utf16_def)
  note inst = presence_by_truthiness
  from inst [of ?s "server 200 (Json ?ok)", THEN conjunct1, rule_format, of 200 ?ok]
  have 0: "successMessage (final (handleSubmit (server 200 (Json ?ok)) ?s)) = JStr (utf16 ''ok'')"
    using parse_typed_one ok fo by (simp add: fetch_server)
  from inst [of ?s "server 200 (Json ?a)", THEN conjunct2, THEN conjunct2, THEN conjunct1,
      rule_format, of 200 ?a]
  have 1: "successMessage (final (handleSubmit (server 200 (Json ?a)) ?s)) =
      JStr (utf16 ''Success!'')"
    using parse_typed_one ok fa by (simp add: fetch_server)
  from inst [of ?s "server 500 (Json ?c)", THEN conjunct2, THEN conjunct1, rule_format,
      of 500 ?c]
  have 2: "errorMessage (final (handleSubmit (server 500 (Json ?c)) ?s)) =
      JStr (utf16 ''db down'') \<and>
    resultUrl (final (handleSubmit (server 500 (Json ?c)) ?s)) = JStr (utf16 ''https://x/lib/42'')"
    using parse_typed_one response_ok_500 fc by (simp add: fetch_server)
  from inst [of ?s "server 500 (Json ?b)", THEN conjunct2, THEN conjunct2, THEN conjunct2,
      THEN conjunct1, rule_format, of 500 ?b]
  have 3: "errorMessage (final (handleSubmit (server 500 (Json ?b)) ?s)) =
      JStr (utf16 ''Request failed with status 500'')"
    using parse_typed_one response_ok_500 fb d by (simp add: fetch_server utf16_def)
  from inst [of ?s "server 500 (Json ?b)", THEN conjunct2, THEN conjunct2, THEN conjunct2,
      THEN conjunct2, rule_format, of 500 ?b]
  have 4: "resultUrl (final (handleSubmit (server 500 (Json ?b)) ?s)) = JNull"
    using parse_typed_one response_ok_500 fb by (simp add: fetch_server)
  from 0 1 2 3 4 show ?thesis by simp
qed

end
